theory Spec2Isabelle
  imports Main "HOL-Library.Word"
begin

unbundle bit_operations_syntax

section \<open>The error word of \<^verbatim>\<open>src/fgOpenGL/GLError.h\<close>\<close>

text \<open>
  \<^verbatim>\<open>GLenum\<close> is OpenGL's 32-bit unsigned integer. A \<^verbatim>\<open>const char*\<close> is a string
  option: \<open>None\<close> is \<^verbatim>\<open>nullptr\<close>. The header is modelled as it is built with
  \<^verbatim>\<open>_DEBUG\<close> defined and \<^verbatim>\<open>NDEBUG\<close> undefined: \<^verbatim>\<open>UNCHECKED_FLAG\<close> is declared
  only under \<^verbatim>\<open>#ifdef _DEBUG\<close> and \<^verbatim>\<open>GLExpected\<close> names it unconditionally, and every
  \<^verbatim>\<open>assert\<close> is live. A failed \<^verbatim>\<open>assert\<close> is the value \<open>Inl AssertionFailed\<close>.
  Reading the member of the anonymous union that is not the active one is
  \<open>Inl InactiveMember\<close>.
\<close>

type_synonym GLenum = "32 word"

type_synonym cstr = "string option"

datatype failure = AssertionFailed | InactiveMember

definition GL_NO_ERROR :: GLenum where
  "GL_NO_ERROR = 0"

definition GL_INVALID_ENUM :: GLenum where
  "GL_INVALID_ENUM = 0x0500"

definition GL_INVALID_OPERATION :: GLenum where
  "GL_INVALID_OPERATION = 0x0502"

text \<open>\<^verbatim>\<open>static const GLenum INVALID_ERROR = ~(1 << ((sizeof(GLenum) * 8) - 1));\<close>\<close>

definition INVALID_ERROR :: GLenum where
  "INVALID_ERROR = NOT (push_bit ((4 * 8) - 1) 1)"

text \<open>\<^verbatim>\<open>static const GLenum UNCHECKED_FLAG = ~INVALID_ERROR;\<close>\<close>

definition UNCHECKED_FLAG :: GLenum where
  "UNCHECKED_FLAG = NOT INVALID_ERROR"

definition c_assert :: "bool \<Rightarrow> failure + unit" where
  "c_assert b = (if b then Inr () else Inl AssertionFailed)"

definition seq :: "failure + 'a \<Rightarrow> ('a \<Rightarrow> failure + 'b) \<Rightarrow> failure + 'b" where
  "seq m k = (case m of Inl f \<Rightarrow> Inl f | Inr v \<Rightarrow> k v)"

section \<open>\<^verbatim>\<open>class GLError\<close>\<close>

record GLError =
  e_error :: GLenum
  e_context :: cstr

text \<open>\<^verbatim>\<open>GLError()\<close>: no error, unchecked, no context.\<close>

definition GLError_default :: GLError where
  "GLError_default = \<lparr>e_error = GL_NO_ERROR OR UNCHECKED_FLAG, e_context = None\<rparr>"

text \<open>\<^verbatim>\<open>GLError(GLError&& right)\<close>: the new object, and \<open>right\<close> as it is left.\<close>

definition GLError_move :: "GLError \<Rightarrow> GLError \<times> GLError" where
  "GLError_move right =
     (\<lparr>e_error = e_error right, e_context = e_context right\<rparr>,
      right\<lparr>e_error := GL_NO_ERROR, e_context := None\<rparr>)"

text \<open>
  \<^verbatim>\<open>explicit GLError(const char* context)\<close> reads \<^verbatim>\<open>glGetError()\<close>; the value the driver
  answers is the first argument.
\<close>

definition GLError_context :: "GLenum \<Rightarrow> cstr \<Rightarrow> GLError" where
  "GLError_context glGetError context =
     \<lparr>e_error = glGetError OR UNCHECKED_FLAG, e_context = context\<rparr>"

text \<open>\<^verbatim>\<open>explicit GLError(GLenum err, const char* context)\<close>\<close>

definition GLError_code :: "GLenum \<Rightarrow> cstr \<Rightarrow> GLError" where
  "GLError_code err context = \<lparr>e_error = err OR UNCHECKED_FLAG, e_context = context\<rparr>"

text \<open>\<^verbatim>\<open>explicit GLError(std::in_place_t, GLenum err, const char* context)\<close>\<close>

definition GLError_in_place :: "GLenum \<Rightarrow> cstr \<Rightarrow> GLError" where
  "GLError_in_place err context = \<lparr>e_error = err, e_context = context\<rparr>"

text \<open>\<^verbatim>\<open>~GLError() { assert(!(_error & UNCHECKED_FLAG)); }\<close>\<close>

definition GLError_dtor :: "GLError \<Rightarrow> failure + unit" where
  "GLError_dtor e = c_assert (e_error e AND UNCHECKED_FLAG = 0)"

definition GLError_clean :: "GLError \<Rightarrow> GLenum" where
  "GLError_clean e = e_error e AND NOT UNCHECKED_FLAG"

definition GLError_checked :: "GLError \<Rightarrow> GLError" where
  "GLError_checked e = e\<lparr>e_error := e_error e AND NOT UNCHECKED_FLAG\<rparr>"

text \<open>\<^verbatim>\<open>has_error()\<close> (and \<^verbatim>\<open>operator bool\<close>): the answer, and the object with the flag cleared.\<close>

definition GLError_has_error :: "GLError \<Rightarrow> bool \<times> GLError" where
  "GLError_has_error e =
     (let e' = GLError_checked e;
          c = GLError_clean e'
      in (c \<noteq> INVALID_ERROR \<and> c \<noteq> GL_NO_ERROR, e'))"

definition GLError_peek :: "GLError \<Rightarrow> bool" where
  "GLError_peek e = (GLError_clean e = GL_NO_ERROR)"

text \<open>
  \<^verbatim>\<open>std::pair<GLenum, const char*> take() &&\<close>. The statements are kept in the order of
  the source: \<^verbatim>\<open>_context\<close> is set to \<^verbatim>\<open>nullptr\<close> before the pair is built from it.
\<close>

definition GLError_take :: "GLError \<Rightarrow> (GLenum \<times> cstr) \<times> GLError" where
  "GLError_take this =
     (if e_error this = INVALID_ERROR then ((INVALID_ERROR, None), this)
      else
        let e = e_error this;
            this1 = this\<lparr>e_error := GL_NO_ERROR\<rparr>;
            this2 = this1\<lparr>e_context := None\<rparr>
        in ((e, e_context this2), this2))"

text \<open>\<^verbatim>\<open>GLError& operator=(GLError&& right)\<close>: destroys \<open>this\<close> first.\<close>

definition GLError_move_assign :: "GLError \<Rightarrow> GLError \<Rightarrow> failure + (GLError \<times> GLError)" where
  "GLError_move_assign this right =
     seq (GLError_dtor this) (\<lambda>_.
       Inr (this\<lparr>e_error := e_error right, e_context := e_context right\<rparr>,
            right\<lparr>e_error := GL_NO_ERROR, e_context := None\<rparr>))"

section \<open>\<^verbatim>\<open>template<class T> class GLExpected\<close>\<close>

text \<open>
  The anonymous union of \<^verbatim>\<open>const char* _context\<close> and \<^verbatim>\<open>T _result\<close> is a datatype
  with the active member as its constructor, and \<open>Indeterminate\<close> for storage no
  constructor has written (or whose \<^verbatim>\<open>T\<close> has been destroyed).
\<close>

datatype 'a storage = Context cstr | Result 'a | Indeterminate

record 'a GLExpected =
  x_error :: GLenum
  x_union :: "'a storage"

definition read_result :: "'a GLExpected \<Rightarrow> failure + 'a" where
  "read_result x = (case x_union x of Result v \<Rightarrow> Inr v | _ \<Rightarrow> Inl InactiveMember)"

definition read_context :: "'a GLExpected \<Rightarrow> failure + cstr" where
  "read_context x = (case x_union x of Context c \<Rightarrow> Inr c | _ \<Rightarrow> Inl InactiveMember)"

text \<open>\<^verbatim>\<open>peek()\<close>: \<^verbatim>\<open>(_error & (~GLError::UNCHECKED_FLAG)) == GL_NO_ERROR\<close>\<close>

definition GLExpected_peek :: "'a GLExpected \<Rightarrow> bool" where
  "GLExpected_peek x = (x_error x AND NOT UNCHECKED_FLAG = GL_NO_ERROR)"

definition GLExpected_checked :: "'a GLExpected \<Rightarrow> 'a GLExpected" where
  "GLExpected_checked x = x\<lparr>x_error := x_error x AND NOT UNCHECKED_FLAG\<rparr>"

text \<open>\<^verbatim>\<open>GLExpected() : _error(GLError::INVALID_ERROR) {}\<close>\<close>

definition GLExpected_default :: "'a GLExpected" where
  "GLExpected_default = \<lparr>x_error = INVALID_ERROR, x_union = Indeterminate\<rparr>"

text \<open>
  \<^verbatim>\<open>GLExpected(U&& right)\<close> and \<^verbatim>\<open>GLExpected(std::in_place_t, Args&&...)\<close>: both set
  \<^verbatim>\<open>_error(GL_NO_ERROR | GLError::UNCHECKED_FLAG)\<close> and construct \<^verbatim>\<open>_result\<close>.
\<close>

definition GLExpected_from_value :: "'a \<Rightarrow> 'a GLExpected" where
  "GLExpected_from_value v = \<lparr>x_error = GL_NO_ERROR OR UNCHECKED_FLAG, x_union = Result v\<rparr>"

text \<open>
  \<^verbatim>\<open>GLExpected(GLError&& right)\<close>: the new object, and \<open>right\<close> as \<^verbatim>\<open>take()\<close> leaves it.
\<close>

definition GLExpected_from_error :: "GLError \<Rightarrow> 'a GLExpected \<times> GLError" where
  "GLExpected_from_error right =
     (let ((err, ctx), right') = GLError_take right;
          this = \<lparr>x_error = err, x_union = Indeterminate\<rparr>
      in if x_error this = INVALID_ERROR then (this, right')
         else (this\<lparr>x_union := Context ctx\<rparr>, right'))"

text \<open>
  \<^verbatim>\<open>~GLExpected()\<close>. The answer is the payload whose destructor \<^verbatim>\<open>_result.~T()\<close> ran, if
  one ran, or the failed assertion.
\<close>

definition GLExpected_dtor :: "'a GLExpected \<Rightarrow> failure + 'a option" where
  "GLExpected_dtor x =
     (if x_error x \<noteq> INVALID_ERROR then
        seq (if GLExpected_peek x then seq (read_result x) (\<lambda>v. Inr (Some v)) else Inr None)
          (\<lambda>destroyed.
             seq (c_assert (x_error x AND UNCHECKED_FLAG = 0)) (\<lambda>_. Inr destroyed))
      else Inr None)"

text \<open>
  The body the move constructor and the move assignment share. \<open>mv\<close> is \<^verbatim>\<open>T\<close>'s move
  constructor: the \<^verbatim>\<open>T\<close> it builds and the \<^verbatim>\<open>T\<close> it leaves behind.
\<close>

definition move_into ::
  "('a \<Rightarrow> 'a \<times> 'a) \<Rightarrow> 'a GLExpected \<Rightarrow> 'a GLExpected \<Rightarrow> failure + ('a GLExpected \<times> 'a GLExpected)" where
  "move_into mv this right =
     (if x_error this = INVALID_ERROR then Inr (this, right)
      else if GLExpected_peek this then
        seq (read_result right) (\<lambda>v.
          let (built, left) = mv v
          in Inr (this\<lparr>x_union := Result built\<rparr>, right\<lparr>x_union := Result left\<rparr>))
      else
        seq (read_context right) (\<lambda>c.
          Inr (this\<lparr>x_union := Context c\<rparr>,
               right\<lparr>x_union := Context None, x_error := INVALID_ERROR\<rparr>)))"

text \<open>\<^verbatim>\<open>explicit GLExpected(GLExpected&& right)\<close>: \<open>(this, right)\<close> afterwards.\<close>

definition GLExpected_move ::
  "('a \<Rightarrow> 'a \<times> 'a) \<Rightarrow> 'a GLExpected \<Rightarrow> failure + ('a GLExpected \<times> 'a GLExpected)" where
  "GLExpected_move mv right =
     move_into mv \<lparr>x_error = x_error right, x_union = Indeterminate\<rparr> right"

text \<open>
  \<^verbatim>\<open>GLExpected& operator=(GLExpected&& right)\<close>, for two distinct objects: the destructor
  of \<open>this\<close> runs first, then the body of the move constructor.
\<close>

definition GLExpected_move_assign ::
  "('a \<Rightarrow> 'a \<times> 'a) \<Rightarrow> 'a GLExpected \<Rightarrow> 'a GLExpected \<Rightarrow> failure + ('a GLExpected \<times> 'a GLExpected)" where
  "GLExpected_move_assign mv this right =
     seq (GLExpected_dtor this) (\<lambda>destroyed.
       move_into mv
         \<lparr>x_error = x_error right,
          x_union = (if destroyed = None then x_union this else Indeterminate)\<rparr>
         right)"

text \<open>
  \<^verbatim>\<open>has_value()\<close> (and \<^verbatim>\<open>explicit operator bool\<close>): \<^verbatim>\<open>_checked(); return peek();\<close>. The
  answer, and the object with the flag cleared.
\<close>

definition GLExpected_has_value :: "'a GLExpected \<Rightarrow> bool \<times> 'a GLExpected" where
  "GLExpected_has_value x = (let x' = GLExpected_checked x in (GLExpected_peek x', x'))"

text \<open>\<^verbatim>\<open>has_error()\<close>: \<^verbatim>\<open>!has_value() && _error != GLError::INVALID_ERROR\<close>\<close>

definition GLExpected_has_error :: "'a GLExpected \<Rightarrow> bool \<times> 'a GLExpected" where
  "GLExpected_has_error x =
     (let (hv, x') = GLExpected_has_value x
      in (\<not> hv \<and> x_error x' \<noteq> INVALID_ERROR, x'))"

text \<open>\<^verbatim>\<open>value()\<close>, all four overloads: \<^verbatim>\<open>assert(peek()); return _result;\<close>\<close>

definition GLExpected_value :: "'a GLExpected \<Rightarrow> failure + 'a" where
  "GLExpected_value x = seq (c_assert (GLExpected_peek x)) (\<lambda>_. read_result x)"

text \<open>\<^verbatim>\<open>operator*\<close>, all four overloads: \<^verbatim>\<open>return value();\<close>\<close>

definition GLExpected_deref :: "'a GLExpected \<Rightarrow> failure + 'a" where
  "GLExpected_deref x = GLExpected_value x"

text \<open>\<^verbatim>\<open>operator->\<close>: \<^verbatim>\<open>assert(peek()); return &_result;\<close>\<close>

definition GLExpected_arrow :: "'a GLExpected \<Rightarrow> failure + 'a" where
  "GLExpected_arrow x = seq (c_assert (GLExpected_peek x)) (\<lambda>_. read_result x)"

text \<open>\<^verbatim>\<open>value_or(U&& right) const&\<close>: the object is not changed.\<close>

definition GLExpected_value_or :: "'a GLExpected \<Rightarrow> 'a \<Rightarrow> failure + 'a" where
  "GLExpected_value_or x right = (if GLExpected_peek x then read_result x else Inr right)"

text \<open>
  \<^verbatim>\<open>value_or(U&& right) &&\<close>: \<^verbatim>\<open>return std::move(_result);\<close> moves the payload out; the
  answer and the object afterwards.
\<close>

definition GLExpected_value_or_rvalue ::
  "('a \<Rightarrow> 'a \<times> 'a) \<Rightarrow> 'a GLExpected \<Rightarrow> 'a \<Rightarrow> failure + ('a \<times> 'a GLExpected)" where
  "GLExpected_value_or_rvalue mv x right =
     (if GLExpected_peek x then
        seq (read_result x) (\<lambda>v. let (built, left) = mv v in Inr (built, x\<lparr>x_union := Result left\<rparr>))
      else Inr (right, x))"

text \<open>\<^verbatim>\<open>_grab()\<close>: \<^verbatim>\<open>GLError(std::in_place, _error, peek() ? nullptr : _context)\<close>\<close>

definition GLExpected_grab :: "'a GLExpected \<Rightarrow> failure + GLError" where
  "GLExpected_grab x =
     seq (if GLExpected_peek x then Inr None else read_context x)
       (\<lambda>c. Inr (GLError_in_place (x_error x) c))"

text \<open>
  \<^verbatim>\<open>GLError take()\<close> after its assertion: the error handed out, and the object
  afterwards. Where \<^verbatim>\<open>NDEBUG\<close> is defined and \<^verbatim>\<open>assert\<close> expands to nothing, this is all
  of \<^verbatim>\<open>take()\<close>.
\<close>

definition GLExpected_take_NDEBUG :: "'a GLExpected \<Rightarrow> failure + (GLError \<times> 'a GLExpected)" where
  "GLExpected_take_NDEBUG x =
     seq (GLExpected_grab x) (\<lambda>e.
       Inr (e, if \<not> GLExpected_peek x
               then x\<lparr>x_error := INVALID_ERROR, x_union := Context None\<rparr>
               else x))"

text \<open>
  \<^verbatim>\<open>GLError take()\<close>: \<^verbatim>\<open>assert(_error != GLError::INVALID_ERROR);\<close> comes first. The
  local \<^verbatim>\<open>GLError\<close> is returned by value, with both its fields.
\<close>

definition GLExpected_take :: "'a GLExpected \<Rightarrow> failure + (GLError \<times> 'a GLExpected)" where
  "GLExpected_take x =
     seq (c_assert (x_error x \<noteq> INVALID_ERROR)) (\<lambda>_. GLExpected_take_NDEBUG x)"

subsection \<open>The three states\<close>

definition holds_value :: "'a GLExpected \<Rightarrow> bool" where
  "holds_value x = fst (GLExpected_has_value x)"

definition holds_error :: "'a GLExpected \<Rightarrow> bool" where
  "holds_error x = fst (GLExpected_has_error x)"

definition consumed :: "'a GLExpected \<Rightarrow> bool" where
  "consumed x = (x_error x = INVALID_ERROR)"

definition is_unchecked :: "'a GLExpected \<Rightarrow> bool" where
  "is_unchecked x = (x_error x AND UNCHECKED_FLAG \<noteq> 0)"

subsection \<open>Two Results used as concrete inputs\<close>

text \<open>
  \<^verbatim>\<open>GLExpected<T>(GLError(GL_INVALID_OPERATION, "glLinkProgram"))\<close> and
  \<^verbatim>\<open>GLExpected<T>(7)\<close>, with \<^verbatim>\<open>T\<close> a number.
\<close>

definition link_failed :: "nat GLExpected" where
  "link_failed =
     fst (GLExpected_from_error (GLError_code GL_INVALID_OPERATION (Some ''glLinkProgram'')))"

definition seven :: "nat GLExpected" where
  "seven = GLExpected_from_value 7"

text \<open>The move constructor of a trivially copyable \<^verbatim>\<open>T\<close> leaves its source as it was.\<close>

definition trivial_move :: "'a \<Rightarrow> 'a \<times> 'a" where
  "trivial_move v = (v, v)"

section \<open>The ownership wrapper\<close>

text \<open>
  Modelled from the spec: the ownership wrapper is missing from \<^verbatim>\<open>src/\<close>. It is the
  class template that \<^verbatim>\<open>ProgramObject\<close> derives from as \<^verbatim>\<open>GLRef<IsProgramObj,
  DeleteProgramObj>\<close> (header \<^verbatim>\<open>GLRef.h\<close>) and \<^verbatim>\<open>FrameBuffer\<close> as \<^verbatim>\<open>Ref<&IsFrameBuffer,
  &DeleteFrameBuffer>\<close>; the derived structs are in the sources, with every special
  member \<^verbatim>\<open>= default\<close> or \<^verbatim>\<open>= delete\<close>, so that their construction, moves and destruction
  are the wrapper's. The wrapper holds one native id (\<^verbatim>\<open>GLuint\<close>, 0 for null). Of the
  driver, the model keeps the set of ids the validity predicate accepts and the list of
  the calls of the release function; a release ends the validity of its id (section 8 of
  the spec: after destruction the validity predicate is false for that id).
\<close>

type_synonym GLuint = "32 word"

record driver =
  live :: "GLuint set"
  released :: "GLuint list"

text \<open>
  Modelled from the spec: \<^verbatim>\<open>is_valid()\<close> is true iff the wrapped id is non-null and the
  validity predicate accepts it.
\<close>

definition Ref_is_valid :: "'a driver_scheme \<Rightarrow> GLuint \<Rightarrow> bool" where
  "Ref_is_valid d ref = (ref \<noteq> 0 \<and> ref \<in> live d)"

text \<open>Modelled from the spec: the injected release function, with its call recorded.\<close>

definition release :: "GLuint \<Rightarrow> 'a driver_scheme \<Rightarrow> 'a driver_scheme" where
  "release ref d = d\<lparr>live := live d - {ref}, released := released d @ [ref]\<rparr>"

text \<open>
  Modelled from the spec: the destructor; if \<^verbatim>\<open>is_valid()\<close>, invoke release exactly
  once, then null the id. The driver and the id afterwards.
\<close>

definition Ref_dtor :: "'a driver_scheme \<Rightarrow> GLuint \<Rightarrow> 'a driver_scheme \<times> GLuint" where
  "Ref_dtor d ref = (if Ref_is_valid d ref then (release ref d, 0) else (d, ref))"

text \<open>
  Modelled from the spec: move construction transfers the id and nulls the source. The
  new handle and the source afterwards.
\<close>

definition Ref_move :: "GLuint \<Rightarrow> GLuint \<times> GLuint" where
  "Ref_move right = (right, 0)"


subsection \<open>The lifetime of one owned resource\<close>









section \<open>\<^verbatim>\<open>FrameBuffer\<close>\<close>

text \<open>
  The macro of \<^verbatim>\<open>GLError.h\<close>, \<^verbatim>\<open>GL_ERROR(name)\<close>: \<^verbatim>\<open>if(GLError e{ name }) { return e; }\<close>.
  The first argument is what \<^verbatim>\<open>glGetError()\<close> answers. The result is the error the
  enclosing function returns, when the test holds; when it does not, \<open>e\<close> is destroyed.
\<close>

definition GL_ERROR :: "GLenum \<Rightarrow> cstr \<Rightarrow> failure + GLError option" where
  "GL_ERROR glGetError name =
     (let (is_error, e) = GLError_has_error (GLError_context glGetError name)
      in if is_error then Inr (Some e) else seq (GLError_dtor e) (\<lambda>_. Inr None))"

text \<open>
  \<^verbatim>\<open>return e;\<close> in a function that returns \<^verbatim>\<open>GLExpected<T>\<close>: the Result is constructed
  from \<open>e\<close>, then \<open>e\<close> is destroyed.
\<close>

definition return_error :: "GLError \<Rightarrow> failure + 'a GLExpected" where
  "return_error e =
     (let (res, e') = GLExpected_from_error e
      in seq (GLError_dtor e') (\<lambda>_. Inr res))"

text \<open>
  \<^verbatim>\<open>struct FrameBuffer\<close> of \<^verbatim>\<open>FrameBuffer.hpp\<close>: the id of the wrapper it derives from, and
  \<^verbatim>\<open>int NumberOfColorAttachments = 0\<close>.
\<close>

record FrameBuffer =
  fb_ref :: GLuint
  NumberOfColorAttachments :: int

text \<open>
  Modelled from the spec: an attachment point is a colour slot, the depth or the stencil
  attachment; images are attached at consecutive slots.
\<close>

datatype attachment = Color nat | Depth | Stencil

text \<open>Modelled from the spec: the slot of the \<open>i\<close>-th image of a list.\<close>

fun slot :: "attachment \<Rightarrow> nat \<Rightarrow> attachment" where
  "slot (Color k) i = Color (k + i)"
| "slot Depth i = Depth"
| "slot Stencil i = Stencil"

text \<open>Modelled from the spec: the attachment type is a colour type.\<close>

fun is_color :: "attachment \<Rightarrow> bool" where
  "is_color (Color k) = True"
| "is_color Depth = False"
| "is_color Stencil = False"

text \<open>
  Modelled from the spec: the driver as \<^verbatim>\<open>FrameBuffer::create\<close> and \<^verbatim>\<open>attach\<close> meet it.
  Beyond the live ids and the releases, its state holds what it answers: its maximum of
  simultaneous colour attachments, the name it generates for a framebuffer and what
  \<^verbatim>\<open>glGetError()\<close> says after that, and what \<^verbatim>\<open>glGetError()\<close> says after an image
  (target, attachment point, texture, mip level, z-offset) has been attached within the
  limit.
\<close>

record fb_driver = driver +
  max_color_attachments :: nat
  generated :: GLuint
  generate_error :: GLenum
  attach_error :: "GLenum \<Rightarrow> attachment \<Rightarrow> GLuint \<Rightarrow> int \<Rightarrow> int \<Rightarrow> GLenum"

text \<open>
  Modelled from the spec: more colour attachments than the driver's maximum is an error
  the driver reports (a colour slot at or past the maximum is refused).
\<close>

definition glFramebufferTexture ::
  "fb_driver \<Rightarrow> GLenum \<Rightarrow> attachment \<Rightarrow> GLuint \<Rightarrow> int \<Rightarrow> int \<Rightarrow> GLenum" where
  "glFramebufferTexture d target a texture level zoffset =
     (case a of
        Color k \<Rightarrow>
          if max_color_attachments d \<le> k then GL_INVALID_OPERATION
          else attach_error d target a texture level zoffset
      | _ \<Rightarrow> attach_error d target a texture level zoffset)"

text \<open>
  Modelled from the spec: \<^verbatim>\<open>FrameBuffer::attach\<close> (declared in \<^verbatim>\<open>FrameBuffer.hpp\<close>, defined
  in a file that is not under \<^verbatim>\<open>src/\<close>) attaches each image of the list at consecutive
  slots and stops at the first step that fails; on success it updates the tracked
  colour-attachment count. The array \<^verbatim>\<open>textures\<close> of \<^verbatim>\<open>n_textures\<close> entries is the list.
  The result is the error of the step that failed, if one did.
\<close>

fun attach_each ::
  "fb_driver \<Rightarrow> GLenum \<Rightarrow> attachment \<Rightarrow> int \<Rightarrow> int \<Rightarrow> nat \<Rightarrow> GLuint list \<Rightarrow> failure + GLError option" where
  "attach_each d target type level zoffset i [] = Inr None"
| "attach_each d target type level zoffset i (t # ts) =
     seq (GL_ERROR (glFramebufferTexture d target (slot type i) t level zoffset)
            (Some ''glFramebufferTexture''))
       (\<lambda>r. case r of
               Some e \<Rightarrow> Inr (Some e)
             | None \<Rightarrow> attach_each d target type level zoffset (Suc i) ts)"

text \<open>
  Modelled from the spec: \<^verbatim>\<open>FrameBuffer::attach\<close>, the loop and the update of the count.
  The error, if a step failed, and the framebuffer object afterwards.
\<close>

definition FrameBuffer_attach ::
  "fb_driver \<Rightarrow> FrameBuffer \<Rightarrow> GLenum \<Rightarrow> attachment \<Rightarrow> int \<Rightarrow> int \<Rightarrow> GLuint list \<Rightarrow>
     failure + (GLError option \<times> FrameBuffer)" where
  "FrameBuffer_attach d fb target type level zoffset textures =
     seq (attach_each d target type level zoffset 0 textures)
       (\<lambda>r. case r of
               Some e \<Rightarrow> Inr (Some e, fb)
             | None \<Rightarrow>
                 Inr (None,
                      if is_color type
                      then fb\<lparr>NumberOfColorAttachments := int (length textures)\<rparr>
                      else fb))"

text \<open>
  Modelled from the spec: \<^verbatim>\<open>FrameBuffer::create\<close> (declared in \<^verbatim>\<open>FrameBuffer.hpp\<close>)
  allocates one native framebuffer, then attaches each supplied image. It fails with the
  driver's error if the allocation fails (no resource is allocated then) or if a step of
  the attachment fails; then the local \<^verbatim>\<open>FrameBuffer\<close> goes out of scope and its
  destructor releases the framebuffer before the function returns. On success the
  framebuffer is moved into the Result and the local, moved from, is destroyed. The
  result is the Result and the driver afterwards.
\<close>

definition FrameBuffer_create ::
  "fb_driver \<Rightarrow> GLenum \<Rightarrow> attachment \<Rightarrow> int \<Rightarrow> int \<Rightarrow> GLuint list \<Rightarrow>
     failure + (FrameBuffer GLExpected \<times> fb_driver)" where
  "FrameBuffer_create d target type level zoffset textures =
     seq (GL_ERROR (generate_error d) (Some ''glGenFramebuffers''))
       (\<lambda>r. case r of
               Some e \<Rightarrow> seq (return_error e) (\<lambda>res. Inr (res, d))
             | None \<Rightarrow>
                 let d1 = d\<lparr>live := insert (generated d) (live d)\<rparr>;
                     fb = \<lparr>fb_ref = generated d, NumberOfColorAttachments = 0\<rparr>
                 in seq (FrameBuffer_attach d1 fb target type level zoffset textures)
                      (\<lambda>(r, fb').
                         case r of
                           Some e \<Rightarrow>
                             seq (return_error e)
                               (\<lambda>res. Inr (res, fst (Ref_dtor d1 (fb_ref fb'))))
                         | None \<Rightarrow>
                             let (new, right) = Ref_move (fb_ref fb')
                             in Inr (GLExpected_from_value (fb'\<lparr>fb_ref := new\<rparr>),
                                     fst (Ref_dtor d1 right))))"

text \<open>An error that \<^verbatim>\<open>has_error()\<close> has reported: checked, with a real error code.\<close>

definition reported :: "GLError \<Rightarrow> bool" where
  "reported e \<longleftrightarrow>
     e_error e AND UNCHECKED_FLAG = 0 \<and> e_error e \<noteq> GL_NO_ERROR \<and> e_error e \<noteq> INVALID_ERROR"

text \<open>
  A driver that allows 8 colour attachments, generates the name 4 and reports no error
  of its own; and nine textures.
\<close>

definition eight_slots :: fb_driver where
  "eight_slots =
     \<lparr>live = {1}, released = [], max_color_attachments = 8, generated = 4,
      generate_error = GL_NO_ERROR, attach_error = (\<lambda>target a texture level zoffset. GL_NO_ERROR)\<rparr>"

definition nine_textures :: "GLuint list" where
  "nine_textures = [11, 12, 13, 14, 15, 16, 17, 18, 19]"

text \<open>The allocation succeeds: \<^verbatim>\<open>GL_ERROR\<close> after \<^verbatim>\<open>glGenFramebuffers\<close> finds no error.\<close>

definition allocates :: "fb_driver \<Rightarrow> bool" where
  "allocates d \<longleftrightarrow> GL_ERROR (generate_error d) (Some ''glGenFramebuffers'') = Inr None"

section \<open>\<^verbatim>\<open>ProgramObject\<close>\<close>

text \<open>
  The specialization \<^verbatim>\<open>GLExpected<void>\<close> of \<^verbatim>\<open>GLError.h\<close> has one member,
  \<^verbatim>\<open>GLError _error\<close>. Its default constructor has an empty body and default-constructs
  the member; \<^verbatim>\<open>has_error()\<close> is \<^verbatim>\<open>return _error.has_error();\<close>.
\<close>

record GLExpected_void =
  v_error :: GLError

definition GLExpected_void_default :: GLExpected_void where
  "GLExpected_void_default = \<lparr>v_error = GLError_default\<rparr>"


text \<open>
  Modelled from the spec: a Result without payload constructed from an error holds that
  error. (In the source the constructor \<^verbatim>\<open>GLExpected(GLError&& right)\<close> of the
  specialization initializes \<^verbatim>\<open>GLError(std::move(_error))\<close>, which names no member and
  does not read \<open>right\<close>.) The error is moved into \<^verbatim>\<open>_error\<close>; the Result, and \<open>right\<close> as
  the move leaves it.
\<close>

definition GLExpected_void_from_error :: "GLError \<Rightarrow> GLExpected_void \<times> GLError" where
  "GLExpected_void_from_error right =
     (let (new, right') = GLError_move right in (\<lparr>v_error = new\<rparr>, right'))"

text \<open>\<^verbatim>\<open>return e;\<close> in a function that returns \<^verbatim>\<open>GLExpected<void>\<close>.\<close>

definition return_void_error :: "GLError \<Rightarrow> failure + GLExpected_void" where
  "return_void_error e =
     (let (res, e') = GLExpected_void_from_error e
      in seq (GLError_dtor e') (\<lambda>_. Inr res))"

text \<open>
  Modelled from the spec: a program object is an owned handle plus an implicit link
  state, unlinked, then has-attached-shaders, then linked.
  \<^verbatim>\<open>struct ProgramObject\<close> of \<^verbatim>\<open>ProgramObject.h\<close> has no member of its own: a program
  object is the id of the wrapper it derives from, and the link state is the driver's.
\<close>

datatype link_state = Unlinked | Has_attached_shaders | Linked

text \<open>
  Modelled from the spec: the driver as \<^verbatim>\<open>ProgramObject\<close> meets it. Beyond the live ids
  and the releases, its state holds the link state of each program and what it answers:
  the name it creates for a program and what \<^verbatim>\<open>glGetError()\<close> says after that, what it
  says after a shader has been attached to a program, and what it says after the stages
  attached to a program have been linked.
\<close>

record program_driver = driver +
  state_of :: "GLuint \<Rightarrow> link_state"
  created :: GLuint
  create_error :: GLenum
  attach_shader_error :: "GLuint \<Rightarrow> GLuint \<Rightarrow> GLenum"
  link_error :: "GLuint \<Rightarrow> GLenum"



text \<open>
  Modelled from the spec: the driver refuses to attach when the program or the shader
  handle is invalid, and may reject the combination of stages.
\<close>

definition glAttachShader :: "program_driver \<Rightarrow> GLuint \<Rightarrow> GLuint \<Rightarrow> GLenum" where
  "glAttachShader d p shader =
     (if \<not> Ref_is_valid d p \<or> \<not> Ref_is_valid d shader then GL_INVALID_OPERATION
      else attach_shader_error d p shader)"

text \<open>
  Modelled from the spec: \<^verbatim>\<open>attach(shader)\<close> consumes the shader object by value; on
  failure the attachment state of the program is unchanged. The shader object, a
  parameter, is destroyed when the function returns.
\<close>

definition ProgramObject_attach ::
  "program_driver \<Rightarrow> GLuint \<Rightarrow> GLuint \<Rightarrow> failure + (GLExpected_void \<times> program_driver)" where
  "ProgramObject_attach d p shader =
     seq (GL_ERROR (glAttachShader d p shader) (Some ''glAttachShader''))
       (\<lambda>r. case r of
               Some e \<Rightarrow> seq (return_void_error e) (\<lambda>res. Inr (res, fst (Ref_dtor d shader)))
             | None \<Rightarrow>
                 Inr (GLExpected_void_default,
                      fst (Ref_dtor (d\<lparr>state_of := (state_of d)(p := Has_attached_shaders)\<rparr>)
                             shader)))"





section \<open>Facts about the error word\<close>

lemma INVALID_ERROR_eq: "INVALID_ERROR = 0x7FFFFFFF"
  by (simp add: INVALID_ERROR_def)

lemma UNCHECKED_FLAG_eq: "UNCHECKED_FLAG = 0x80000000"
  by (simp add: UNCHECKED_FLAG_def INVALID_ERROR_def)

lemma UNCHECKED_FLAG_nonzero: "UNCHECKED_FLAG \<noteq> 0"
  by (simp add: UNCHECKED_FLAG_eq)

lemma INVALID_ERROR_no_flag: "INVALID_ERROR AND UNCHECKED_FLAG = 0"
  by (simp add: UNCHECKED_FLAG_def)

lemma INVALID_ERROR_clean: "INVALID_ERROR AND NOT UNCHECKED_FLAG = INVALID_ERROR"
  by (simp add: UNCHECKED_FLAG_def)

lemma INVALID_ERROR_nonzero: "INVALID_ERROR \<noteq> GL_NO_ERROR"
  by (simp add: INVALID_ERROR_eq GL_NO_ERROR_def)

lemma clean_no_flag: "(w AND NOT UNCHECKED_FLAG) AND UNCHECKED_FLAG = 0"
  by (simp add: and.assoc)

lemma clean_idem: "(w AND NOT UNCHECKED_FLAG) AND NOT UNCHECKED_FLAG = w AND NOT UNCHECKED_FLAG"
  by (simp add: and.assoc)

lemma flagged_not_invalid: "w AND UNCHECKED_FLAG \<noteq> 0 \<Longrightarrow> w \<noteq> INVALID_ERROR"
  by (auto simp: INVALID_ERROR_no_flag)

lemma or_flag_flagged: "(w OR UNCHECKED_FLAG) AND UNCHECKED_FLAG \<noteq> 0"
  by (simp add: and.commute UNCHECKED_FLAG_nonzero)

lemma or_flag_clean: "(w OR UNCHECKED_FLAG) AND NOT UNCHECKED_FLAG = w AND NOT UNCHECKED_FLAG"
  by (simp add: bit.conj_disj_distrib2)

lemma peek_not_invalid: "w AND NOT UNCHECKED_FLAG = GL_NO_ERROR \<Longrightarrow> w \<noteq> INVALID_ERROR"
  using INVALID_ERROR_clean INVALID_ERROR_nonzero by auto


section \<open>Facts about the states of a Result\<close>

lemma peek_checked: "GLExpected_peek (GLExpected_checked x) = GLExpected_peek x"
  by (simp add: GLExpected_peek_def GLExpected_checked_def clean_idem)

lemma holds_value_iff: "holds_value x \<longleftrightarrow> GLExpected_peek x"
  by (simp add: holds_value_def GLExpected_has_value_def Let_def peek_checked)

lemma holds_error_iff:
  "holds_error x \<longleftrightarrow>
     \<not> GLExpected_peek x \<and> x_error x AND NOT UNCHECKED_FLAG \<noteq> INVALID_ERROR"
  by (simp add: holds_error_def GLExpected_has_error_def GLExpected_has_value_def Let_def
      peek_checked) (simp add: GLExpected_checked_def)

lemma has_error_state: "snd (GLExpected_has_error x) = GLExpected_checked x"
  by (simp add: GLExpected_has_error_def GLExpected_has_value_def Let_def)

lemma holds_error_checked: "holds_error (GLExpected_checked x) = holds_error x"
  by (simp add: holds_error_iff peek_checked) (simp add: GLExpected_checked_def clean_idem)

lemma value_not_peek: "\<not> GLExpected_peek x \<Longrightarrow> GLExpected_value x = Inl AssertionFailed"
  by (simp add: GLExpected_value_def c_assert_def seq_def)

lemma link_failed_eq: "link_failed = \<lparr>x_error = 0x80000502, x_union = Context None\<rparr>"
  by (simp add: link_failed_def GLExpected_from_error_def GLError_take_def GLError_code_def
      GL_INVALID_OPERATION_def UNCHECKED_FLAG_eq INVALID_ERROR_eq GL_NO_ERROR_def Let_def)

lemma link_failed_holds_error: "holds_error link_failed"
  by (simp add: holds_error_iff link_failed_eq GLExpected_peek_def UNCHECKED_FLAG_eq
      INVALID_ERROR_eq GL_NO_ERROR_def)

lemma seven_eq: "seven = \<lparr>x_error = 0x80000000, x_union = Result 7\<rparr>"
  by (simp add: seven_def GLExpected_from_value_def UNCHECKED_FLAG_eq GL_NO_ERROR_def)

lemma seven_peek: "GLExpected_peek seven"
  by (simp add: seven_eq GLExpected_peek_def UNCHECKED_FLAG_eq GL_NO_ERROR_def)

lemma holds_error_not_invalid: "holds_error x \<Longrightarrow> x_error x \<noteq> INVALID_ERROR"
  by (auto simp: holds_error_iff INVALID_ERROR_clean)

lemma from_value_peek: "GLExpected_peek (GLExpected_from_value v)"
  by (simp add: GLExpected_from_value_def GLExpected_peek_def GL_NO_ERROR_def)

lemma from_value_unchecked: "is_unchecked (GLExpected_from_value v)"
  by (simp add: GLExpected_from_value_def is_unchecked_def GL_NO_ERROR_def UNCHECKED_FLAG_nonzero)

lemma from_error_code:
  "fst (GLExpected_from_error (GLError_code err ctx)) =
     \<lparr>x_error = err OR UNCHECKED_FLAG, x_union = Context None\<rparr>"
  using flagged_not_invalid [OF or_flag_flagged, of err]
  by (simp add: GLExpected_from_error_def GLError_take_def GLError_code_def Let_def)

lemma seven_unchecked: "is_unchecked seven"
  by (simp add: seven_def from_value_unchecked)

lemma link_failed_unchecked: "is_unchecked link_failed"
  by (simp add: link_failed_eq is_unchecked_def UNCHECKED_FLAG_eq)

lemma dtor_unchecked_error:
  "holds_error x \<Longrightarrow> is_unchecked x \<Longrightarrow> GLExpected_dtor x = Inl AssertionFailed"
  by (simp add: GLExpected_dtor_def holds_error_not_invalid holds_error_iff is_unchecked_def
      c_assert_def seq_def)

lemma dtor_unchecked_value:
  "GLExpected_peek x \<Longrightarrow> x_union x = Result v \<Longrightarrow> is_unchecked x \<Longrightarrow>
   GLExpected_dtor x = Inl AssertionFailed"
  by (simp add: GLExpected_dtor_def is_unchecked_def flagged_not_invalid read_result_def
      c_assert_def seq_def)

section \<open>C8: \<^verbatim>\<open>value()\<close> and \<^verbatim>\<open>operator*\<close> in the error state\<close>

text \<open>
  C8. For every Result in the holds-error state (the state \<^verbatim>\<open>has_error()\<close> reports),
  \<^verbatim>\<open>value()\<close> and \<^verbatim>\<open>operator*\<close> fail their assertion: neither returns a payload. The same
  holds for the object as \<^verbatim>\<open>has_error()\<close> leaves it after it has answered true.
\<close>

theorem value_asserts_in_error_state:
  assumes "holds_error x"
  shows "GLExpected_value x = Inl AssertionFailed \<and>
         GLExpected_deref x = Inl AssertionFailed \<and>
         fst (GLExpected_has_error x) \<and>
         GLExpected_value (snd (GLExpected_has_error x)) = Inl AssertionFailed \<and>
         GLExpected_deref (snd (GLExpected_has_error x)) = Inl AssertionFailed"
proof -
  from assms have np: "\<not> GLExpected_peek x"
    by (simp add: holds_error_iff)
  have "holds_error (snd (GLExpected_has_error x))"
    using assms by (simp add: has_error_state holds_error_checked)
  then have np': "\<not> GLExpected_peek (snd (GLExpected_has_error x))"
    by (simp add: holds_error_iff)
  from assms have "fst (GLExpected_has_error x)"
    by (simp add: holds_error_def)
  with np np' show ?thesis
    by (simp add: GLExpected_deref_def value_not_peek)
qed

theorem value_asserts_in_error_state_witness:
  "holds_error link_failed \<and>
   GLExpected_value link_failed = Inl AssertionFailed \<and>
   GLExpected_deref link_failed = Inl AssertionFailed \<and>
   GLExpected_value (snd (GLExpected_has_error link_failed)) = Inl AssertionFailed"
  using value_asserts_in_error_state [OF link_failed_holds_error] link_failed_holds_error
  by simp

section \<open>C2: \<^verbatim>\<open>GLExpected::take()\<close>, once and twice\<close>

lemma grab_error_state:
  "\<not> GLExpected_peek x \<Longrightarrow> x_union x = Context c \<Longrightarrow>
   GLExpected_grab x = Inr \<lparr>e_error = x_error x, e_context = c\<rparr>"
  by (simp add: GLExpected_grab_def read_context_def seq_def GLError_in_place_def)

lemma take_consumed: "consumed x \<Longrightarrow> GLExpected_take x = Inl AssertionFailed"
  by (simp add: consumed_def GLExpected_take_def c_assert_def seq_def)

text \<open>
  C2, as amended. For every Result in the holds-error state (its context member
  active), \<^verbatim>\<open>take()\<close> hands out a \<^verbatim>\<open>GLError\<close> with the Result's error word and context
  and leaves the Result consumed (\<^verbatim>\<open>INVALID_ERROR\<close>, null context). A second \<^verbatim>\<open>take()\<close>
  on that Result fails \<^verbatim>\<open>assert(_error != GLError::INVALID_ERROR)\<close> and returns nothing;
  only where the assertion is compiled out does it return the invalid sentinel (a
  \<^verbatim>\<open>GLError\<close> with \<^verbatim>\<open>INVALID_ERROR\<close> and a null context).
\<close>

theorem take_error_then_consumed:
  assumes "holds_error x" and "x_union x = Context c"
  shows "GLExpected_take x =
           Inr (\<lparr>e_error = x_error x, e_context = c\<rparr>,
                x\<lparr>x_error := INVALID_ERROR, x_union := Context None\<rparr>) \<and>
         consumed (x\<lparr>x_error := INVALID_ERROR, x_union := Context None\<rparr>) \<and>
         GLExpected_take (x\<lparr>x_error := INVALID_ERROR, x_union := Context None\<rparr>) =
           Inl AssertionFailed \<and>
         GLExpected_take_NDEBUG (x\<lparr>x_error := INVALID_ERROR, x_union := Context None\<rparr>) =
           Inr (\<lparr>e_error = INVALID_ERROR, e_context = None\<rparr>,
                x\<lparr>x_error := INVALID_ERROR, x_union := Context None\<rparr>)"
proof -
  let ?x' = "x\<lparr>x_error := INVALID_ERROR, x_union := Context None\<rparr>"
  from assms(1) have np: "\<not> GLExpected_peek x" and ni: "x_error x \<noteq> INVALID_ERROR"
    by (simp_all add: holds_error_iff holds_error_not_invalid)
  have c: "consumed ?x'"
    by (simp add: consumed_def)
  have np': "\<not> GLExpected_peek ?x'"
    by (simp add: GLExpected_peek_def INVALID_ERROR_clean INVALID_ERROR_nonzero)
  have 1: "GLExpected_take x = Inr (\<lparr>e_error = x_error x, e_context = c\<rparr>, ?x')"
    using np ni assms(2)
    by (simp add: GLExpected_take_def GLExpected_take_NDEBUG_def c_assert_def seq_def
        grab_error_state)
  have 2: "GLExpected_take_NDEBUG ?x' =
      Inr (\<lparr>e_error = INVALID_ERROR, e_context = None\<rparr>, ?x')"
    using np' grab_error_state [OF np', of None]
    by (simp add: GLExpected_take_NDEBUG_def seq_def)
  from 1 2 c show ?thesis
    by (simp add: take_consumed)
qed

theorem take_error_then_consumed_witness:
  "holds_error link_failed \<and> x_union link_failed = Context None \<and>
   GLExpected_take link_failed =
     Inr (\<lparr>e_error = 0x80000502, e_context = None\<rparr>,
          \<lparr>x_error = INVALID_ERROR, x_union = Context None\<rparr>) \<and>
   GLExpected_take \<lparr>x_error = INVALID_ERROR, x_union = Context None :: nat storage\<rparr> =
     Inl AssertionFailed \<and>
   GLExpected_take_NDEBUG \<lparr>x_error = INVALID_ERROR, x_union = Context None :: nat storage\<rparr> =
     Inr (\<lparr>e_error = INVALID_ERROR, e_context = None\<rparr>,
          \<lparr>x_error = INVALID_ERROR, x_union = Context None\<rparr>)"
  using take_error_then_consumed [OF link_failed_holds_error, of None] link_failed_holds_error
  by (simp add: link_failed_eq)

text \<open>
  The spec has the second \<^verbatim>\<open>take()\<close> return the invalid sentinel: on the Result of a
  failed \<^verbatim>\<open>glLinkProgram\<close>, the second call is the failed assertion.
\<close>

theorem second_take_counterexample:
  "GLExpected_take (snd (projr (GLExpected_take link_failed))) = Inl AssertionFailed"
  by (simp add: link_failed_eq GLExpected_take_def GLExpected_take_NDEBUG_def c_assert_def
      seq_def GLExpected_grab_def read_context_def GLError_in_place_def GLExpected_peek_def
      UNCHECKED_FLAG_eq INVALID_ERROR_eq GL_NO_ERROR_def)

section \<open>C4: a Result constructed from a \<^verbatim>\<open>GLError\<close>\<close>

lemma GLError_take_context: "snd (fst (GLError_take e)) = None"
  by (simp add: GLError_take_def Let_def)

lemma from_error_context_lost:
  "x_union (fst (GLExpected_from_error e) :: 'a GLExpected) \<noteq> Context (Some c)"
  by (simp add: GLExpected_from_error_def GLError_take_def Let_def)

lemma from_error_code_kept:
  "x_error (fst (GLExpected_from_error e) :: 'a GLExpected) = e_error e"
  by (simp add: GLExpected_from_error_def GLError_take_def Let_def)

text \<open>
  C4, evaluated on the code. \<^verbatim>\<open>GLExpected(GLError(GL_INVALID_ENUM, "glBindFramebuffer"))\<close>
  keeps the error word and holds a null context: \<^verbatim>\<open>GLError::take()\<close> builds the pair it
  returns from \<^verbatim>\<open>_context\<close> after it has set \<^verbatim>\<open>_context\<close> to \<^verbatim>\<open>nullptr\<close>.
\<close>

theorem from_error_drops_context:
  "fst (GLExpected_from_error (GLError_code GL_INVALID_ENUM (Some ''glBindFramebuffer''))) =
     (\<lparr>x_error = GL_INVALID_ENUM OR UNCHECKED_FLAG, x_union = Context None\<rparr> :: nat GLExpected)"
  by (simp add: GLExpected_from_error_def GLError_take_def GLError_code_def
      GL_INVALID_ENUM_def UNCHECKED_FLAG_eq INVALID_ERROR_eq GL_NO_ERROR_def Let_def)

section \<open>C3: the destructor and the \<^verbatim>\<open>UNCHECKED_FLAG\<close>\<close>

text \<open>
  C3, as amended. Destroying a Result that carries \<^verbatim>\<open>UNCHECKED_FLAG\<close> fails the
  destructor's assertion in the holds-error state and in the holds-value state alike. A
  Result constructed from a value is constructed with the flag, so destroying it
  uninspected fails the assertion too. A Result constructed from a \<^verbatim>\<open>GLError\<close> takes its
  error word, flag included, from that \<^verbatim>\<open>GLError\<close>; constructed from an unchecked
  \<^verbatim>\<open>GLError(err, context)\<close> with a real error code it holds an error and fails the
  assertion when destroyed.
\<close>

theorem dtor_asserts_when_unchecked:
  "(holds_error x \<and> is_unchecked x \<longrightarrow> GLExpected_dtor x = Inl AssertionFailed) \<and>
   (holds_value x \<and> x_union x = Result v \<and> is_unchecked x \<longrightarrow>
      GLExpected_dtor x = Inl AssertionFailed) \<and>
   is_unchecked (GLExpected_from_value v) \<and>
   GLExpected_dtor (GLExpected_from_value v) = Inl AssertionFailed \<and>
   x_error (fst (GLExpected_from_error e) :: 'a GLExpected) = e_error e \<and>
   (err AND NOT UNCHECKED_FLAG \<noteq> GL_NO_ERROR \<and> err AND NOT UNCHECKED_FLAG \<noteq> INVALID_ERROR \<longrightarrow>
      holds_error (fst (GLExpected_from_error (GLError_code err ctx)) :: 'a GLExpected) \<and>
      GLExpected_dtor (fst (GLExpected_from_error (GLError_code err ctx)) :: 'a GLExpected) =
        Inl AssertionFailed)"
proof -
  have a: "GLExpected_dtor (GLExpected_from_value v) = Inl AssertionFailed"
    by (rule dtor_unchecked_value [OF from_value_peek _ from_value_unchecked])
      (simp add: GLExpected_from_value_def)
  have b: "x_error (fst (GLExpected_from_error e) :: 'a GLExpected) = e_error e"
    by (simp add: GLExpected_from_error_def GLError_take_def Let_def)
  have c: "holds_error (fst (GLExpected_from_error (GLError_code err ctx)) :: 'a GLExpected) \<and>
      GLExpected_dtor (fst (GLExpected_from_error (GLError_code err ctx)) :: 'a GLExpected) =
        Inl AssertionFailed"
    if "err AND NOT UNCHECKED_FLAG \<noteq> GL_NO_ERROR" "err AND NOT UNCHECKED_FLAG \<noteq> INVALID_ERROR"
  proof -
    let ?x = "fst (GLExpected_from_error (GLError_code err ctx)) :: 'a GLExpected"
    have h: "holds_error ?x"
      using that by (simp add: from_error_code holds_error_iff GLExpected_peek_def or_flag_clean)
    have u: "is_unchecked ?x"
      using or_flag_flagged [of err] by (simp add: from_error_code is_unchecked_def)
    from h u show ?thesis
      by (simp add: dtor_unchecked_error)
  qed
  show ?thesis
    using a b c
    by (auto simp: dtor_unchecked_error dtor_unchecked_value holds_value_iff from_value_unchecked)
qed

theorem dtor_asserts_when_unchecked_witness:
  "holds_error link_failed \<and> is_unchecked link_failed \<and>
   GLExpected_dtor link_failed = Inl AssertionFailed \<and>
   holds_value seven \<and> x_union seven = Result 7 \<and> is_unchecked seven \<and>
   GLExpected_dtor seven = Inl AssertionFailed \<and>
   GL_INVALID_OPERATION AND NOT UNCHECKED_FLAG \<noteq> GL_NO_ERROR \<and>
   GL_INVALID_OPERATION AND NOT UNCHECKED_FLAG \<noteq> INVALID_ERROR \<and>
   GLExpected_dtor (fst (GLExpected_from_error (GLError_code GL_INVALID_OPERATION None)) :: nat GLExpected) =
     Inl AssertionFailed"
proof -
  have n: "GL_INVALID_OPERATION AND NOT UNCHECKED_FLAG \<noteq> GL_NO_ERROR \<and>
      GL_INVALID_OPERATION AND NOT UNCHECKED_FLAG \<noteq> INVALID_ERROR"
    by (simp add: GL_INVALID_OPERATION_def UNCHECKED_FLAG_eq INVALID_ERROR_eq GL_NO_ERROR_def)
  have s: "holds_value seven \<and> x_union seven = Result 7 \<and> is_unchecked seven"
    by (simp add: holds_value_iff seven_peek seven_unchecked) (simp add: seven_eq)
  have l: "holds_error link_failed \<and> is_unchecked link_failed"
    by (simp add: link_failed_holds_error link_failed_unchecked)
  from dtor_asserts_when_unchecked [where x = link_failed and err = GL_INVALID_OPERATION and ctx = None]
    dtor_asserts_when_unchecked [where x = seven and v = 7] n s l
  show ?thesis
    by blast
qed

text \<open>
  The spec has a never-inspected Result that holds a value destroyed without the
  assertion: \<^verbatim>\<open>GLExpected<T>(7)\<close>, destroyed at once, fails it.
\<close>

theorem value_result_dtor_counterexample:
  "GLExpected_dtor (GLExpected_from_value (7::nat)) = Inl AssertionFailed"
  by (simp add: GLExpected_dtor_def GLExpected_from_value_def GLExpected_peek_def
      read_result_def c_assert_def seq_def UNCHECKED_FLAG_eq INVALID_ERROR_eq GL_NO_ERROR_def)

text \<open>
  The flag is inherited, not set: in \<^verbatim>\<open>if(GLError e{ name }) return e;\<close> (the macro
  \<^verbatim>\<open>GL_ERROR\<close>) the test clears the flag of \<open>e\<close>, and the Result returned from it is
  destroyed without the assertion although nobody has inspected it.
\<close>

lemma checked_error_result_dtor:
  "GLExpected_dtor (fst (GLExpected_from_error (snd (GLError_has_error (GLError_code GL_INVALID_OPERATION ctx))))
     :: nat GLExpected) = Inr None"
  by (simp add: GLExpected_dtor_def GLExpected_from_error_def GLError_take_def
      GLError_has_error_def GLError_checked_def GLError_clean_def GLError_code_def 
      GLExpected_peek_def GL_INVALID_OPERATION_def
      c_assert_def seq_def UNCHECKED_FLAG_eq INVALID_ERROR_eq GL_NO_ERROR_def Let_def)

section \<open>C9: \<^verbatim>\<open>value_or\<close>\<close>

lemma read_result_not_assert: "read_result x \<noteq> Inl AssertionFailed"
  by (simp add: read_result_def split: storage.splits)

text \<open>
  C9, as amended. \<^verbatim>\<open>value_or(fallback)\<close>, in both overloads, never fails an assertion:
  it returns the held value when the Result holds a value (the rvalue overload moves it
  out) and the fallback otherwise. It is not a check: it leaves the error word, and so
  \<^verbatim>\<open>UNCHECKED_FLAG\<close>, as it was, and a Result that was unchecked before the call still
  fails the destructor's assertion after it.
\<close>

theorem value_or_is_no_check:
  "GLExpected_value_or x fallback \<noteq> Inl AssertionFailed \<and>
   GLExpected_value_or_rvalue mv x fallback \<noteq> Inl AssertionFailed \<and>
   (holds_value x \<and> x_union x = Result v \<longrightarrow>
      GLExpected_value_or x fallback = Inr v \<and>
      GLExpected_value_or_rvalue mv x fallback =
        Inr (fst (mv v), x\<lparr>x_union := Result (snd (mv v))\<rparr>)) \<and>
   (\<not> holds_value x \<longrightarrow>
      GLExpected_value_or x fallback = Inr fallback \<and>
      GLExpected_value_or_rvalue mv x fallback = Inr (fallback, x)) \<and>
   (\<forall>r x'. GLExpected_value_or_rvalue mv x fallback = Inr (r, x') \<longrightarrow>
      x_error x' = x_error x \<and> is_unchecked x' = is_unchecked x) \<and>
   (holds_error x \<and> is_unchecked x \<longrightarrow> GLExpected_dtor x = Inl AssertionFailed) \<and>
   (holds_value x \<and> x_union x = Result v \<and> is_unchecked x \<longrightarrow>
      GLExpected_dtor x = Inl AssertionFailed \<and>
      GLExpected_dtor (x\<lparr>x_union := Result (snd (mv v))\<rparr>) = Inl AssertionFailed)"
  (is "?A \<and> ?B \<and> ?C \<and> ?D \<and> ?E \<and> ?F \<and> ?G")
proof -
  have 1: ?A
    by (simp add: GLExpected_value_or_def read_result_not_assert)
  have 2: ?B
    by (simp add: GLExpected_value_or_rvalue_def read_result_def seq_def split_def Let_def
        split: storage.splits)
  have 3: ?C
    by (simp add: holds_value_iff GLExpected_value_or_def GLExpected_value_or_rvalue_def
        read_result_def seq_def split_def Let_def)
  have 4: ?D
    by (simp add: holds_value_iff GLExpected_value_or_def GLExpected_value_or_rvalue_def)
  have 5: ?E
    by (auto simp: GLExpected_value_or_rvalue_def read_result_def seq_def split_def Let_def
        is_unchecked_def split: if_splits storage.splits)
  have 6: ?F
    by (simp add: dtor_unchecked_error)
  have 7: ?G
  proof (intro impI, elim conjE)
    assume h: "holds_value x" "x_union x = Result v" "is_unchecked x"
    then have a: "GLExpected_dtor x = Inl AssertionFailed"
      by (simp add: holds_value_iff dtor_unchecked_value)
    have "GLExpected_dtor (x\<lparr>x_union := Result (snd (mv v))\<rparr>) = Inl AssertionFailed"
      using h by (intro dtor_unchecked_value)
        (simp_all add: holds_value_iff GLExpected_peek_def is_unchecked_def)
    with a show "GLExpected_dtor x = Inl AssertionFailed \<and>
      GLExpected_dtor (x\<lparr>x_union := Result (snd (mv v))\<rparr>) = Inl AssertionFailed"
      by (rule conjI)
  qed
  from 1 2 3 4 5 6 7 show ?thesis
    by (intro conjI)
qed

theorem value_or_is_no_check_witness:
  "holds_value seven \<and> x_union seven = Result 7 \<and> is_unchecked seven \<and>
   GLExpected_value_or seven 0 = Inr 7 \<and>
   GLExpected_value_or_rvalue trivial_move seven 0 = Inr (7, seven) \<and>
   GLExpected_dtor seven = Inl AssertionFailed \<and>
   \<not> holds_value link_failed \<and> holds_error link_failed \<and> is_unchecked link_failed \<and>
   GLExpected_value_or link_failed 0 = Inr 0 \<and>
   GLExpected_value_or_rvalue trivial_move link_failed 0 = Inr (0, link_failed) \<and>
   GLExpected_dtor link_failed = Inl AssertionFailed"
proof -
  have s: "holds_value seven \<and> x_union seven = Result 7 \<and> is_unchecked seven"
    by (simp add: holds_value_iff seven_peek seven_unchecked) (simp add: seven_eq)
  have l: "\<not> holds_value link_failed \<and> holds_error link_failed \<and> is_unchecked link_failed"
    using link_failed_holds_error
    by (simp add: link_failed_unchecked holds_value_iff holds_error_iff)
  have m: "fst (trivial_move (7::nat)) = 7"
    and t: "seven\<lparr>x_union := Result (snd (trivial_move 7))\<rparr> = seven"
    by (simp_all add: seven_eq trivial_move_def)
  note sv = value_or_is_no_check [where x = seven and v = 7 and fallback = 0 and mv = trivial_move]
  note lf = value_or_is_no_check [where x = link_failed and fallback = 0 and mv = trivial_move]
  have a: "GLExpected_value_or seven 0 = Inr 7 \<and>
      GLExpected_value_or_rvalue trivial_move seven 0 = Inr (7, seven)"
    using sv s unfolding m t by blast
  have a': "GLExpected_dtor seven = Inl AssertionFailed"
    using sv s by blast
  have b: "GLExpected_value_or link_failed 0 = Inr 0 \<and>
      GLExpected_value_or_rvalue trivial_move link_failed 0 = Inr (0, link_failed) \<and>
      GLExpected_dtor link_failed = Inl AssertionFailed"
    using lf l by blast
  from a a' b s l show ?thesis
    by (intro conjI) (elim conjE, assumption)+
qed

text \<open>
  The spec has \<^verbatim>\<open>value_or\<close> count as a check: on \<^verbatim>\<open>GLExpected<T>(7)\<close> either
  overload returns 7, and the destructor that follows fails its assertion.
\<close>

theorem value_or_check_counterexample:
  "GLExpected_value_or seven 0 = Inr 7 \<and> GLExpected_dtor seven = Inl AssertionFailed \<and>
   fst (projr (GLExpected_value_or_rvalue trivial_move seven 0)) = 7 \<and>
   GLExpected_dtor (snd (projr (GLExpected_value_or_rvalue trivial_move seven 0))) =
     Inl AssertionFailed"
  by (simp add: seven_eq GLExpected_value_or_def GLExpected_value_or_rvalue_def
      GLExpected_dtor_def GLExpected_peek_def read_result_def trivial_move_def c_assert_def
      seq_def UNCHECKED_FLAG_eq INVALID_ERROR_eq GL_NO_ERROR_def)


section \<open>C10: what a move leaves in its source\<close>

lemma move_into_value:
  assumes "GLExpected_peek right" and "x_union right = Result v" and "x_error this = x_error right"
  shows "move_into mv this right =
           Inr (this\<lparr>x_union := Result (fst (mv v))\<rparr>, right\<lparr>x_union := Result (snd (mv v))\<rparr>)"
proof -
  from assms(1,3) have p: "GLExpected_peek this"
    by (simp add: GLExpected_peek_def)
  then have "x_error this \<noteq> INVALID_ERROR"
    by (simp add: GLExpected_peek_def peek_not_invalid)
  with p assms(2) show ?thesis
    by (simp add: move_into_def read_result_def seq_def split_def Let_def)
qed

lemma move_into_error:
  assumes "holds_error right" and "x_union right = Context c" and "x_error this = x_error right"
  shows "move_into mv this right =
           Inr (this\<lparr>x_union := Context c\<rparr>,
                right\<lparr>x_union := Context None, x_error := INVALID_ERROR\<rparr>)"
proof -
  from assms(1,3) have p: "\<not> GLExpected_peek this" and n: "x_error this \<noteq> INVALID_ERROR"
    using holds_error_not_invalid [OF assms(1)]
    by (simp_all add: holds_error_iff GLExpected_peek_def)
  with assms(2) show ?thesis
    by (simp add: move_into_def read_context_def seq_def)
qed

lemma default_dtor: "GLExpected_dtor (GLExpected_default :: 'a GLExpected) = Inr None"
  by (simp add: GLExpected_dtor_def GLExpected_default_def)

text \<open>
  C10. Moving from a source that holds a value, by the move constructor or (once the
  destructor of the target has passed) by the move assignment, builds the target's value
  with \<^verbatim>\<open>T\<close>'s move constructor and copies the error word; the source keeps its error
  word: it is not consumed, still reports a value, keeps \<^verbatim>\<open>UNCHECKED_FLAG\<close> as it had
  it, and fails the destructor's assertion when it had it. Moving from a source that
  holds an error hands the context over and leaves the source consumed.
\<close>

theorem move_leaves_value_source:
  "(holds_value right \<and> x_union right = Result v \<longrightarrow>
      GLExpected_move mv right =
        Inr (\<lparr>x_error = x_error right, x_union = Result (fst (mv v))\<rparr>,
             right\<lparr>x_union := Result (snd (mv v))\<rparr>) \<and>
      (\<forall>d. GLExpected_dtor this = Inr d \<longrightarrow>
         GLExpected_move_assign mv this right =
           Inr (\<lparr>x_error = x_error right, x_union = Result (fst (mv v))\<rparr>,
                right\<lparr>x_union := Result (snd (mv v))\<rparr>)) \<and>
      \<not> consumed (right\<lparr>x_union := Result (snd (mv v))\<rparr>) \<and>
      holds_value (right\<lparr>x_union := Result (snd (mv v))\<rparr>) \<and>
      is_unchecked (right\<lparr>x_union := Result (snd (mv v))\<rparr>) = is_unchecked right \<and>
      (is_unchecked right \<longrightarrow>
         GLExpected_dtor (right\<lparr>x_union := Result (snd (mv v))\<rparr>) = Inl AssertionFailed)) \<and>
   (holds_error right \<and> x_union right = Context c \<longrightarrow>
      GLExpected_move mv right =
        Inr (\<lparr>x_error = x_error right, x_union = Context c\<rparr>,
             right\<lparr>x_union := Context None, x_error := INVALID_ERROR\<rparr>) \<and>
      (\<forall>d. GLExpected_dtor this = Inr d \<longrightarrow>
         GLExpected_move_assign mv this right =
           Inr (\<lparr>x_error = x_error right, x_union = Context c\<rparr>,
                right\<lparr>x_union := Context None, x_error := INVALID_ERROR\<rparr>)) \<and>
      consumed (right\<lparr>x_union := Context None, x_error := INVALID_ERROR\<rparr>))"
  (is "(?V \<longrightarrow> ?V1 \<and> ?V2 \<and> ?V3 \<and> ?V4 \<and> ?V5 \<and> ?V6) \<and> (?E \<longrightarrow> ?E1 \<and> ?E2 \<and> ?E3)")
proof (intro conjI impI)
  assume ?V
  then have p: "GLExpected_peek right" and u: "x_union right = Result v"
    by (simp_all add: holds_value_iff)
  let ?r = "right\<lparr>x_union := Result (snd (mv v))\<rparr>"
  show ?V1
    using move_into_value [OF p u, of "\<lparr>x_error = x_error right, x_union = Indeterminate\<rparr>" mv]
    by (simp add: GLExpected_move_def)
  show ?V2
  proof (intro allI impI)
    fix d assume "GLExpected_dtor this = Inr d"
    then show "GLExpected_move_assign mv this right =
           Inr (\<lparr>x_error = x_error right, x_union = Result (fst (mv v))\<rparr>, ?r)"
      using move_into_value [OF p u, of
          "\<lparr>x_error = x_error right, x_union = (if d = None then x_union this else Indeterminate)\<rparr>" mv]
      by (simp add: GLExpected_move_assign_def seq_def)
  qed
  have p': "GLExpected_peek ?r"
    using p by (simp add: GLExpected_peek_def)
  show ?V3
    using p' by (simp add: consumed_def GLExpected_peek_def peek_not_invalid)
  show ?V4
    using p' by (simp add: holds_value_iff)
  show ?V5
    by (simp add: is_unchecked_def)
  show "GLExpected_dtor ?r = Inl AssertionFailed" if "is_unchecked right"
  proof -
    from that have "is_unchecked ?r"
      by (simp add: is_unchecked_def)
    with p' show ?thesis
      by (intro dtor_unchecked_value [where v = "snd (mv v)"]) simp_all
  qed
next
  assume ?E
  then have h: "holds_error right" and u: "x_union right = Context c"
    by simp_all
  show ?E1
    using move_into_error [OF h u, of "\<lparr>x_error = x_error right, x_union = Indeterminate\<rparr>" mv]
    by (simp add: GLExpected_move_def)
  show ?E2
  proof (intro allI impI)
    fix d assume "GLExpected_dtor this = Inr d"
    then show "GLExpected_move_assign mv this right =
           Inr (\<lparr>x_error = x_error right, x_union = Context c\<rparr>,
                right\<lparr>x_union := Context None, x_error := INVALID_ERROR\<rparr>)"
      using move_into_error [OF h u, of
          "\<lparr>x_error = x_error right, x_union = (if d = None then x_union this else Indeterminate)\<rparr>" mv]
      by (simp add: GLExpected_move_assign_def seq_def)
  qed
  show ?E3
    by (simp add: consumed_def)
qed

theorem move_leaves_value_source_witness:
  "holds_value seven \<and> x_union seven = Result 7 \<and> is_unchecked seven \<and>
   GLExpected_move trivial_move seven = Inr (seven, seven) \<and>
   GLExpected_dtor (GLExpected_default :: nat GLExpected) = Inr None \<and>
   GLExpected_move_assign trivial_move GLExpected_default seven = Inr (seven, seven) \<and>
   GLExpected_dtor seven = Inl AssertionFailed \<and>
   holds_error link_failed \<and> x_union link_failed = Context None \<and>
   GLExpected_move trivial_move link_failed =
     Inr (link_failed, \<lparr>x_error = INVALID_ERROR, x_union = Context None\<rparr>) \<and>
   GLExpected_move_assign trivial_move GLExpected_default link_failed =
     Inr (link_failed, \<lparr>x_error = INVALID_ERROR, x_union = Context None\<rparr>)"
proof -
  have s: "holds_value seven \<and> x_union seven = Result 7" and su: "is_unchecked seven"
    by (simp_all add: holds_value_iff seven_peek seven_unchecked) (simp add: seven_eq)
  have l: "holds_error link_failed \<and> x_union link_failed = Context None"
    by (simp add: link_failed_holds_error) (simp add: link_failed_eq)
  have e1: "\<lparr>x_error = x_error seven, x_union = Result (fst (trivial_move 7))\<rparr> = seven"
    and e2: "seven\<lparr>x_union := Result (snd (trivial_move 7))\<rparr> = seven"
    and e3: "\<lparr>x_error = x_error link_failed, x_union = Context None\<rparr> = link_failed"
    and e4: "link_failed\<lparr>x_union := Context None, x_error := INVALID_ERROR\<rparr> =
              \<lparr>x_error = INVALID_ERROR, x_union = Context None\<rparr>"
    by (simp_all add: seven_eq link_failed_eq trivial_move_def)
  note sv = move_leaves_value_source
    [where right = seven and v = 7 and mv = trivial_move and this = GLExpected_default,
     unfolded e1 e2]
  note lf = move_leaves_value_source
    [where right = link_failed and c = None and mv = trivial_move and this = GLExpected_default,
     unfolded e3 e4]
  have a: "GLExpected_move trivial_move seven = Inr (seven, seven) \<and>
      GLExpected_move_assign trivial_move GLExpected_default seven = Inr (seven, seven) \<and>
      GLExpected_dtor seven = Inl AssertionFailed"
    using sv s su default_dtor by blast
  have b: "GLExpected_move trivial_move link_failed =
        Inr (link_failed, \<lparr>x_error = INVALID_ERROR, x_union = Context None\<rparr>) \<and>
      GLExpected_move_assign trivial_move GLExpected_default link_failed =
        Inr (link_failed, \<lparr>x_error = INVALID_ERROR, x_union = Context None\<rparr>)"
    using lf l default_dtor by blast
  from a b s su l default_dtor [where ?'a = nat] show ?thesis
    by (intro conjI) (elim conjE, assumption)+
qed


section \<open>C1: an owned resource is released exactly once\<close>

lemma count_released_release:
  "count_list (released (release i d)) ref = count_list (released d) ref + (if i = ref then 1 else 0)"
  by (simp add: release_def)



lemma destroy_null: "Ref_dtor d 0 = (d, 0)"
  by (simp add: Ref_dtor_def Ref_is_valid_def)







section \<open>Facts about \<^verbatim>\<open>GL_ERROR\<close> and the errors it returns\<close>

lemma no_flag_clean:
  assumes "w AND UNCHECKED_FLAG = 0"
  shows "w AND NOT UNCHECKED_FLAG = w"
proof -
  have "w = w AND (UNCHECKED_FLAG OR NOT UNCHECKED_FLAG)"
    by simp
  also have "\<dots> = (w AND UNCHECKED_FLAG) OR (w AND NOT UNCHECKED_FLAG)"
    by (rule bit.conj_disj_distrib)
  also have "\<dots> = w AND NOT UNCHECKED_FLAG"
    using assms by simp
  finally show ?thesis
    by simp
qed

lemma has_error_reported:
  "fst (GLError_has_error e) \<Longrightarrow> reported (snd (GLError_has_error e))"
  by (simp add: GLError_has_error_def GLError_checked_def GLError_clean_def reported_def
      Let_def clean_no_flag clean_idem)

lemma has_error_dtor: "GLError_dtor (snd (GLError_has_error e)) = Inr ()"
  by (simp add: GLError_has_error_def GLError_checked_def GLError_dtor_def c_assert_def
      Let_def clean_no_flag)

lemma GL_ERROR_cases:
  "GL_ERROR g name = Inr None \<or> (\<exists>e. GL_ERROR g name = Inr (Some e) \<and> reported e)"
proof (cases "fst (GLError_has_error (GLError_context g name))")
  case True
  then show ?thesis
    using has_error_reported [OF True] by (simp add: GL_ERROR_def split_def)
next
  case False
  then show ?thesis
    by (simp add: GL_ERROR_def split_def has_error_dtor seq_def)
qed

lemma GL_ERROR_invalid_operation:
  "\<exists>e. GL_ERROR GL_INVALID_OPERATION name = Inr (Some e) \<and> reported e"
proof -
  have "fst (GLError_has_error (GLError_context GL_INVALID_OPERATION name))"
    by (simp add: GLError_has_error_def GLError_checked_def GLError_clean_def
      GLError_context_def Let_def GL_INVALID_OPERATION_def UNCHECKED_FLAG_eq
      INVALID_ERROR_eq GL_NO_ERROR_def)
  then show ?thesis
    using has_error_reported by (simp add: GL_ERROR_def split_def)
qed

lemma return_error_reported:
  assumes "reported e"
  shows "\<exists>res. return_error e = Inr (res :: 'a GLExpected) \<and> holds_error res \<and> \<not> is_unchecked res"
proof -
  let ?res = "\<lparr>x_error = e_error e, x_union = Context None\<rparr> :: 'a GLExpected"
  from assms have n: "e_error e \<noteq> INVALID_ERROR" and z: "e_error e \<noteq> GL_NO_ERROR"
    and f: "e_error e AND UNCHECKED_FLAG = 0"
    by (simp_all add: reported_def)
  have t: "GLExpected_from_error e =
      (?res, e\<lparr>e_error := GL_NO_ERROR, e_context := None\<rparr>)"
    using n by (simp add: GLExpected_from_error_def GLError_take_def Let_def)
  have r: "return_error e = Inr ?res"
    by (simp add: return_error_def t GLError_dtor_def c_assert_def seq_def GL_NO_ERROR_def)
  have "holds_error ?res"
    using n z by (simp add: holds_error_iff GLExpected_peek_def no_flag_clean [OF f])
  moreover have "\<not> is_unchecked ?res"
    using f by (simp add: is_unchecked_def)
  ultimately show ?thesis
    using r by blast
qed

section \<open>C6: a failed \<^verbatim>\<open>FrameBuffer::create\<close>\<close>

lemma attach_each_total:
  "attach_each d target type level zoffset i ts = Inr None \<or>
   (\<exists>e. attach_each d target type level zoffset i ts = Inr (Some e) \<and> reported e)"
proof (induction ts arbitrary: i)
  case Nil
  show ?case by simp
next
  case (Cons t ts)
  from GL_ERROR_cases [of "glFramebufferTexture d target (slot type i) t level zoffset"
      "Some ''glFramebufferTexture''"]
  show ?case
    using Cons.IH [of "Suc i"] by (auto simp: seq_def)
qed

lemma attach_each_over_limit:
  assumes "max_color_attachments d < k + i + length ts" and "ts \<noteq> []"
  shows "\<exists>e. attach_each d target (Color k) level zoffset i ts = Inr (Some e) \<and> reported e"
  using assms
proof (induction ts arbitrary: i)
  case Nil
  then show ?case by simp
next
  case (Cons t ts)
  show ?case
  proof (cases "max_color_attachments d \<le> k + i")
    case True
    then have "glFramebufferTexture d target (slot (Color k) i) t level zoffset = GL_INVALID_OPERATION"
      by (simp add: glFramebufferTexture_def)
    with GL_ERROR_invalid_operation [of "Some ''glFramebufferTexture''"]
    show ?thesis
      by (auto simp: seq_def)
  next
    case False
    with Cons.prems have ne: "ts \<noteq> []" and lim: "max_color_attachments d < k + Suc i + length ts"
      by auto
    from GL_ERROR_cases [of "glFramebufferTexture d target (slot (Color k) i) t level zoffset"
      "Some ''glFramebufferTexture''"]
    show ?thesis
      using Cons.IH [OF lim ne] by (auto simp: seq_def)
  qed
qed


lemma no_new_valid_release:
  "Ref_is_valid (fst (Ref_dtor (d\<lparr>live := insert g (live d)\<rparr>) g)) i \<Longrightarrow> Ref_is_valid d i"
  by (auto simp: Ref_dtor_def Ref_is_valid_def release_def split: if_splits)

lemma create_not_allocated:
  assumes "\<not> allocates d"
  shows "\<exists>res. FrameBuffer_create d target type level zoffset textures = Inr (res, d) \<and>
           holds_error res"
proof -
  from assms GL_ERROR_cases [of "generate_error d" "Some ''glGenFramebuffers''"]
  obtain e where e: "GL_ERROR (generate_error d) (Some ''glGenFramebuffers'') = Inr (Some e)"
    and r: "reported e"
    by (auto simp: allocates_def)
  from return_error_reported [OF r]
  obtain res :: "FrameBuffer GLExpected" where "return_error e = Inr res" "holds_error res"
    by blast
  with e show ?thesis
    by (simp add: FrameBuffer_create_def seq_def)
qed

lemma create_allocated:
  assumes "allocates d"
  shows "FrameBuffer_create d target type level zoffset textures =
           (case attach_each (d\<lparr>live := insert (generated d) (live d)\<rparr>) target type level
                   zoffset 0 textures of
              Inl f \<Rightarrow> Inl f
            | Inr (Some e) \<Rightarrow>
                seq (return_error e) (\<lambda>res.
                  Inr (res, fst (Ref_dtor (d\<lparr>live := insert (generated d) (live d)\<rparr>) (generated d))))
            | Inr None \<Rightarrow>
                Inr (GLExpected_from_value
                       \<lparr>fb_ref = generated d,
                        NumberOfColorAttachments = (if is_color type then int (length textures) else 0)\<rparr>,
                     d\<lparr>live := insert (generated d) (live d)\<rparr>))"
  using assms
  by (simp add: FrameBuffer_create_def FrameBuffer_attach_def allocates_def seq_def Let_def
      Ref_move_def destroy_null split: sum.splits option.splits)

lemma from_value_not_error: "\<not> holds_error (GLExpected_from_value v)"
  using from_value_peek [of v] by (simp add: holds_error_iff)

lemma eight_slots_allocates: "allocates eight_slots"
  by (simp add: allocates_def eight_slots_def GL_ERROR_def GLError_has_error_def
      GLError_checked_def GLError_clean_def GLError_context_def GLError_dtor_def c_assert_def
      seq_def Let_def GL_NO_ERROR_def UNCHECKED_FLAG_eq INVALID_ERROR_eq)

text \<open>
  C6. \<^verbatim>\<open>FrameBuffer::create\<close> always returns a Result, never a failed assertion. With a
  colour attachment type and more images than the driver's maximum of simultaneous
  colour attachments, the Result holds an error. Whenever the Result holds an error, no
  id is valid afterwards that was not valid before; when the framebuffer had been
  allocated, its id has been released (once, as the last release) and is no longer valid,
  and when the allocation itself failed the driver is as it was.
\<close>

theorem create_failure_releases:
  "(\<exists>res d'. FrameBuffer_create d target type level zoffset textures = Inr (res, d')) \<and>
   (is_color type \<and> max_color_attachments d < length textures \<longrightarrow>
      (\<exists>res d'. FrameBuffer_create d target type level zoffset textures = Inr (res, d') \<and>
         holds_error res)) \<and>
   (\<forall>res d'. FrameBuffer_create d target type level zoffset textures = Inr (res, d') \<and>
        holds_error res \<longrightarrow>
        (\<forall>i. Ref_is_valid d' i \<longrightarrow> Ref_is_valid d i) \<and>
        (if allocates d
         then generated d \<noteq> 0 \<longrightarrow>
                released d' = released d @ [generated d] \<and> \<not> Ref_is_valid d' (generated d)
         else d' = d))"
  (is "?total \<and> ?limit \<and> ?released")
proof (cases "allocates d")
  case False
  from create_not_allocated [OF False, of target type level zoffset textures]
  show ?thesis
    using False by auto
next
  case True
  let ?d1 = "d\<lparr>live := insert (generated d) (live d)\<rparr>"
  note c = create_allocated [OF True, of target type level zoffset textures]
  have fail: "\<exists>res. FrameBuffer_create d target type level zoffset textures =
        Inr (res, fst (Ref_dtor ?d1 (generated d))) \<and> holds_error res"
    if "attach_each ?d1 target type level zoffset 0 textures = Inr (Some e)" "reported e" for e
  proof -
    from return_error_reported [OF that(2)]
    obtain res :: "FrameBuffer GLExpected" where "return_error e = Inr res" "holds_error res"
      by blast
    with that(1) show ?thesis
      by (simp add: c seq_def)
  qed
  have ok: "FrameBuffer_create d target type level zoffset textures =
      Inr (GLExpected_from_value
             \<lparr>fb_ref = generated d,
              NumberOfColorAttachments = (if is_color type then int (length textures) else 0)\<rparr>, ?d1)"
    if "attach_each ?d1 target type level zoffset 0 textures = Inr None"
    using that by (simp add: c)
  have total: ?total
    using attach_each_total [of ?d1 target type level zoffset 0 textures] fail ok by blast
  have limit: ?limit
  proof (intro impI, elim conjE)
    assume col: "is_color type" and lim: "max_color_attachments d < length textures"
    from col obtain k where k: "type = Color k"
      by (cases type) simp_all
    from lim have "max_color_attachments ?d1 < k + 0 + length textures" and "textures \<noteq> []"
      by auto
    from attach_each_over_limit [OF this, of target level zoffset] fail k
    show "\<exists>res d'. FrameBuffer_create d target type level zoffset textures = Inr (res, d') \<and>
         holds_error res"
      by blast
  qed
  have released: ?released
  proof (intro allI impI, elim conjE)
    fix res d'
    assume r: "FrameBuffer_create d target type level zoffset textures = Inr (res, d')"
      and h: "holds_error res"
    from attach_each_total [of ?d1 target type level zoffset 0 textures]
    have d': "d' = fst (Ref_dtor ?d1 (generated d))"
    proof
      assume "attach_each ?d1 target type level zoffset 0 textures = Inr None"
      from ok [OF this] r h show ?thesis
        by (simp add: from_value_not_error)
    next
      assume "\<exists>e. attach_each ?d1 target type level zoffset 0 textures = Inr (Some e) \<and>
        reported e"
      with fail r show ?thesis
        by auto
    qed
    have "\<forall>i. Ref_is_valid d' i \<longrightarrow> Ref_is_valid d i"
      unfolding d' using no_new_valid_release by blast
    moreover have "released d' = released d @ [generated d] \<and> \<not> Ref_is_valid d' (generated d)"
      if "generated d \<noteq> 0"
      unfolding d' using that by (simp add: Ref_dtor_def Ref_is_valid_def release_def)
    ultimately show "(\<forall>i. Ref_is_valid d' i \<longrightarrow> Ref_is_valid d i) \<and>
        (if allocates d
         then generated d \<noteq> 0 \<longrightarrow>
                released d' = released d @ [generated d] \<and> \<not> Ref_is_valid d' (generated d)
         else d' = d)"
      using True by simp
  qed
  from total limit released show ?thesis
    by (intro conjI)
qed

theorem create_failure_releases_witness:
  "is_color (Color 0) \<and> max_color_attachments eight_slots < length nine_textures \<and>
   allocates eight_slots \<and> generated eight_slots \<noteq> 0 \<and>
   (\<exists>res d'. FrameBuffer_create eight_slots 0x8D40 (Color 0) 0 0 nine_textures = Inr (res, d') \<and>
      holds_error res \<and> released d' = [4] \<and> \<not> Ref_is_valid d' 4)"
proof -
  have l: "is_color (Color 0) \<and> max_color_attachments eight_slots < length nine_textures"
    by (simp add: eight_slots_def nine_textures_def)
  have g: "generated eight_slots \<noteq> 0" and g4: "generated eight_slots = 4"
    and r: "released eight_slots = []"
    by (simp_all add: eight_slots_def)
  note th = create_failure_releases
    [where d = eight_slots and target = "0x8D40" and type = "Color 0" and level = 0
       and zoffset = 0 and textures = nine_textures]
  from th l obtain res d' where
    c: "FrameBuffer_create eight_slots 0x8D40 (Color 0) 0 0 nine_textures = Inr (res, d')"
    and h: "holds_error res"
    by blast
  with th eight_slots_allocates g
  have "released d' = released eight_slots @ [generated eight_slots] \<and>
      \<not> Ref_is_valid d' (generated eight_slots)"
    by (metis (full_types))
  with c h l g eight_slots_allocates show ?thesis
    unfolding g4 r by auto
qed


section \<open>C7: \<^verbatim>\<open>ProgramObject::link\<close> with nothing attached\<close>








end
